theory Spec2Isabelle
  imports Main
begin

section \<open>Values of the request and of the store\<close>

text \<open>
  A field of \<open>req.body\<close> or \<open>req.query\<close> is absent (\<open>undefined\<close>), \<open>null\<close> or a
  string: this is what a form post and a query string deliver. JSON numbers, booleans,
  arrays and objects are outside the model.
\<close>

datatype jsval = Undefined | Null | Str string

type_synonym fields = "string \<Rightarrow> jsval"

text \<open>JavaScript truthiness, \<open>a || b\<close> and \<open>ToString\<close> (as a template literal applies it).\<close>

fun truthy :: "jsval \<Rightarrow> bool" where
  "truthy Undefined = False"
| "truthy Null = False"
| "truthy (Str s) = (s \<noteq> [])"

definition js_or :: "jsval \<Rightarrow> jsval \<Rightarrow> jsval" where
  "js_or a b = (if truthy a then a else b)"

fun ToString :: "jsval \<Rightarrow> string" where
  "ToString Undefined = ''undefined''"
| "ToString Null = ''null''"
| "ToString (Str s) = s"

text \<open>
  A parameter bound by \<open>db.run\<close>/\<open>db.all\<close>: a string is bound as text, \<open>null\<close> as
  NULL, and \<open>undefined\<close> is left unbound, which SQLite reads as NULL. \<open>None\<close> is NULL.
\<close>

fun bind_param :: "jsval \<Rightarrow> string option" where
  "bind_param Undefined = None"
| "bind_param Null = None"
| "bind_param (Str s) = Some s"

subsection \<open>The five tables of \<open>initializeDatabase\<close>\<close>

text \<open>
  One record per table, one field per column; a column declared \<open>NOT NULL\<close> has no
  \<open>option\<close>. Timestamps are seconds (\<open>CURRENT_TIMESTAMP\<close> has a resolution of one
  second), amounts are hundredths.
\<close>

record consultation_row =
  con_id :: nat
  con_relationship_type :: string
  con_names :: string
  con_email :: string
  con_phone :: string
  con_anniversary :: "string option"
  con_preferences :: "string option"
  con_budget :: string
  con_status :: "string option"
  con_created_at :: nat
  con_updated_at :: nat

record customer_row =
  cus_id :: nat
  cus_email :: string
  cus_name :: string
  cus_phone :: "string option"
  cus_relationship_type :: "string option"
  cus_anniversary :: "string option"
  cus_partner_email :: "string option"
  cus_created_at :: nat
  cus_updated_at :: nat

record phone_number_row =
  pn_id :: nat
  pn_number :: string
  pn_pattern_type :: "string option"
  pn_customer_id :: "nat option"
  pn_partner_number_id :: "nat option"
  pn_status :: "string option"
  pn_purchase_price :: "int option"
  pn_monthly_fee :: "int option"
  pn_created_at :: nat

record order_row =
  ord_id :: nat
  ord_customer_id :: nat
  ord_package_type :: string
  ord_total_amount :: int
  ord_status :: "string option"
  ord_payment_intent_id :: "string option"
  ord_numbers :: "string option"
  ord_created_at :: nat

record email_subscriber_row =
  sub_id :: nat
  sub_email :: string
  sub_source :: "string option"
  sub_status :: "string option"
  sub_created_at :: nat

text \<open>
  The database: each table in rowid order, and for the two tables the handlers write
  the \<open>AUTOINCREMENT\<close> counter (the largest rowid the table ever held).
\<close>

record store =
  consultations :: "consultation_row list"
  consultations_seq :: nat
  customers :: "customer_row list"
  phone_numbers :: "phone_number_row list"
  orders :: "order_row list"
  email_subscribers :: "email_subscriber_row list"
  email_subscribers_seq :: nat

subsection \<open>What one request sees of the outside\<close>

datatype template =
    ConfirmationTemplate jsval nat
  | AdminTemplate nat jsval jsval jsval jsval jsval jsval
  | WelcomeTemplate

text \<open>
  The \<open>mailOptions\<close> handed to \<open>transporter.sendMail\<close>: sender, recipient, and the data
  the subject and the HTML are rendered from.
\<close>

record mail =
  mail_from :: string
  mail_to :: jsval
  mail_template :: template

text \<open>\<open>process.env\<close>: a variable is a string or is not set.\<close>

record config =
  SMTP_FROM :: "string option"
  ADMIN_EMAIL :: "string option"

text \<open>
  The environment of one request: whether the database engine fails the statement
  (I/O error, locked file, missing table), the clock, and whether the mail transport
  delivers a given message or rejects.
\<close>

record env =
  db_fault :: bool
  now :: nat
  smtp_ok :: "mail \<Rightarrow> bool"

datatype sql_error = SQLITE_ERROR | SQLITE_CONSTRAINT | SQLITE_MISMATCH

datatype log_entry = ConsoleError string | ConsoleLog string

record validation_error =
  err_path :: string
  err_msg :: string
  err_value :: jsval

datatype response =
    Json400 "validation_error list"
  | Json500 string
  | ConsultationSubmitted nat
  | NumbersFound "phone_number_row list"
  | NewsletterSubscribed
  | ConsultationsFound "consultation_row list"

fun status_code :: "response \<Rightarrow> nat" where
  "status_code (Json400 _) = 400"
| "status_code (Json500 _) = 500"
| "status_code _ = 200"

text \<open>
  What a handler did: the response it sent, the database afterwards, the messages it
  handed to the transport, and the console.
\<close>

record outcome =
  out_response :: response
  out_store :: store
  out_mails :: "mail list"
  out_log :: "log_entry list"

section \<open>Validation\<close>

text \<open>
  The validators of express-validator the chains use. Both run on the field converted
  to a string (\<open>undefined\<close> and \<open>null\<close> become the empty string). \<open>isEmail\<close> is
  validator.js's predicate on strings, a parameter of the model.
\<close>

datatype validator = notEmpty | isEmail

fun validator_string :: "jsval \<Rightarrow> string" where
  "validator_string Undefined = []"
| "validator_string Null = []"
| "validator_string (Str s) = s"

fun run_validator :: "(string \<Rightarrow> bool) \<Rightarrow> validator \<Rightarrow> jsval \<Rightarrow> bool" where
  "run_validator is_email notEmpty v = (validator_string v \<noteq> [])"
| "run_validator is_email isEmail v = is_email (validator_string v)"

type_synonym chain = "string \<times> validator \<times> string"

definition consultationValidation :: "chain list" where
  "consultationValidation =
    [(''relationshipType'', notEmpty, ''Relationship type is required''),
     (''names'', notEmpty, ''Names are required''),
     (''email'', isEmail, ''Valid email is required''),
     (''phone'', notEmpty, ''Phone number is required''),
     (''budget'', notEmpty, ''Budget selection is required'')]"

definition newsletterValidation :: "chain list" where
  "newsletterValidation = [(''email'', isEmail, ''Valid email is required'')]"

text \<open>\<open>validationResult(req).array()\<close>: one error for each chain whose validator fails.\<close>

definition validationResult ::
  "(string \<Rightarrow> bool) \<Rightarrow> chain list \<Rightarrow> fields \<Rightarrow> validation_error list" where
  "validationResult is_email cs body =
    map (\<lambda>(path, v, msg). \<lparr>err_path = path, err_msg = msg, err_value = body path\<rparr>)
      (filter (\<lambda>(path, v, msg). \<not> run_validator is_email v (body path)) cs)"

section \<open>Persistence\<close>

text \<open>
  \<open>INTEGER PRIMARY KEY AUTOINCREMENT\<close>: the new rowid is one more than the largest
  rowid the table holds or ever held.
\<close>

definition next_rowid :: "nat \<Rightarrow> nat list \<Rightarrow> nat" where
  "next_rowid seq ids = Suc (fold max ids seq)"

text \<open>
  The statement of the consultation handler,
  \<^verbatim>\<open>INSERT INTO consultations (relationship_type, names, email, phone, anniversary,
  preferences, budget) VALUES (?, ?, ?, ?, ?, ?, ?)\<close>,
  with its seven parameters. It fails when the engine fails or a \<open>NOT NULL\<close> column
  would receive NULL; otherwise it appends the row, \<open>status\<close> and the two timestamps
  taking their defaults, and gives \<open>this.lastID\<close>. A failed statement changes nothing,
  the counter included. The row holds the anniversary as the statement bound it: the
  column is declared \<open>DATE\<close>, so SQLite goes on to keep a text that reads as a number
  (\<open>007\<close>) as that number, a conversion that is left out here.
\<close>

definition insert_consultation ::
  "env \<Rightarrow> store \<Rightarrow> jsval \<Rightarrow> jsval \<Rightarrow> jsval \<Rightarrow> jsval \<Rightarrow> jsval \<Rightarrow> jsval \<Rightarrow> jsval
    \<Rightarrow> sql_error + (store \<times> nat)" where
  "insert_consultation e db relationshipType names email phone anniversary preferences budget =
    (if db_fault e then Inl SQLITE_ERROR
     else
       case (bind_param relationshipType, bind_param names, bind_param email,
             bind_param phone, bind_param budget) of
         (Some rt, Some n, Some em, Some ph, Some b) \<Rightarrow>
           let lastID = next_rowid (consultations_seq db) (map con_id (consultations db));
               row = \<lparr>con_id = lastID, con_relationship_type = rt, con_names = n,
                      con_email = em, con_phone = ph,
                      con_anniversary = bind_param anniversary,
                      con_preferences = bind_param preferences,
                      con_budget = b, con_status = Some ''pending'',
                      con_created_at = now e, con_updated_at = now e\<rparr>
           in Inr (db\<lparr>consultations := consultations db @ [row],
                       consultations_seq := lastID\<rparr>, lastID)
       | _ \<Rightarrow> Inl SQLITE_CONSTRAINT)"

text \<open>
  \<^verbatim>\<open>INSERT OR IGNORE INTO email_subscribers (email, source) VALUES (?, ?)\<close>:
  a row that would break \<open>NOT NULL\<close> or \<open>UNIQUE\<close> on \<open>email\<close> is skipped and the
  statement still succeeds. SQLite takes the new rowid before it checks the constraints,
  so the \<open>AUTOINCREMENT\<close> counter advances also when the row is skipped.
\<close>

definition insert_or_ignore_subscriber ::
  "env \<Rightarrow> store \<Rightarrow> jsval \<Rightarrow> jsval \<Rightarrow> sql_error + store" where
  "insert_or_ignore_subscriber e db email source =
    (if db_fault e then Inl SQLITE_ERROR
     else
       let rowid = next_rowid (email_subscribers_seq db) (map sub_id (email_subscribers db));
           skipped = db\<lparr>email_subscribers_seq := rowid\<rparr>
       in case bind_param email of
            None \<Rightarrow> Inr skipped
          | Some em \<Rightarrow>
              if em \<in> set (map sub_email (email_subscribers db)) then Inr skipped
              else
                let row = \<lparr>sub_id = rowid, sub_email = em, sub_source = bind_param source,
                           sub_status = Some ''active'', sub_created_at = now e\<rparr>
                in Inr (db\<lparr>email_subscribers := email_subscribers db @ [row],
                            email_subscribers_seq := rowid\<rparr>))"

subsection \<open>Operators of the \<open>SELECT\<close> statements\<close>

text \<open>\<open>column = ?\<close> in a \<open>WHERE\<close> clause: a comparison with NULL does not select the row.\<close>

fun sql_eq :: "string option \<Rightarrow> string option \<Rightarrow> bool" where
  "sql_eq (Some x) (Some y) = (x = y)"
| "sql_eq _ _ = False"

text \<open>
  SQLite's \<open>LIKE\<close>, pattern first: \<open>%\<close> matches any run of characters, \<open>_\<close> any one
  character, and any other character matches itself, ASCII letters without regard to
  case. There is no escape character.
\<close>

definition ascii_lower :: "char \<Rightarrow> char" where
  "ascii_lower c =
    (let n = of_char c :: nat in if 65 \<le> n \<and> n \<le> 90 then char_of (n + 32) else c)"

fun like_match :: "string \<Rightarrow> string \<Rightarrow> bool" where
  "like_match [] [] = True"
| "like_match [] (c # cs) = False"
| "like_match (p # ps) [] = (p = CHR ''%'' \<and> like_match ps [])"
| "like_match (p # ps) (c # cs) =
    (if p = CHR ''%'' then like_match ps (c # cs) \<or> like_match (p # ps) cs
     else (p = CHR ''_'' \<or> ascii_lower p = ascii_lower c) \<and> like_match ps cs)"

fun sql_like :: "string \<Rightarrow> string option \<Rightarrow> bool" where
  "sql_like x (Some pat) = like_match pat x"
| "sql_like x None = False"

text \<open>
  \<open>LIMIT\<close> and \<open>OFFSET\<close>: a negative limit is no limit, a negative offset is none. The
  bound value must be an integer of 64 bits: \<open>NaN\<close> (here \<open>None\<close>) and a number out of
  that range fail the statement with a datatype mismatch.
\<close>

definition sql_integer :: "int option \<Rightarrow> int option" where
  "sql_integer v =
    (case v of
       None \<Rightarrow> None
     | Some n \<Rightarrow> if - (2 ^ 63) < n \<and> n < 2 ^ 63 then Some n else None)"

definition sql_limit :: "int \<Rightarrow> 'a list \<Rightarrow> 'a list" where
  "sql_limit n rows = (if n < 0 then rows else take (nat n) rows)"

definition sql_offset :: "int \<Rightarrow> 'a list \<Rightarrow> 'a list" where
  "sql_offset n rows = (if n < 0 then rows else drop (nat n) rows)"

text \<open>
  \<open>ORDER BY created_at DESC\<close>. SQL leaves the order of rows with equal keys open; here
  they keep their table order, as they do in SQLite's sorter.
\<close>

definition order_by_created_at_desc :: "consultation_row list \<Rightarrow> consultation_row list" where
  "order_by_created_at_desc rows = sort_key (\<lambda>r. - int (con_created_at r)) rows"

definition select_phone_numbers ::
  "env \<Rightarrow> store \<Rightarrow> (phone_number_row \<Rightarrow> bool) \<Rightarrow> int option
    \<Rightarrow> sql_error + phone_number_row list" where
  "select_phone_numbers e db where_clause limit =
    (if db_fault e then Inl SQLITE_ERROR
     else
       case sql_integer limit of
         None \<Rightarrow> Inl SQLITE_MISMATCH
       | Some n \<Rightarrow> Inr (sql_limit n (filter where_clause (phone_numbers db))))"

definition select_consultations ::
  "env \<Rightarrow> store \<Rightarrow> (consultation_row \<Rightarrow> bool) \<Rightarrow> int option \<Rightarrow> int option
    \<Rightarrow> sql_error + consultation_row list" where
  "select_consultations e db where_clause limit offset =
    (if db_fault e then Inl SQLITE_ERROR
     else
       case (sql_integer limit, sql_integer offset) of
         (Some n, Some k) \<Rightarrow>
           Inr (sql_limit n (sql_offset k
                 (order_by_created_at_desc (filter where_clause (consultations db)))))
       | _ \<Rightarrow> Inl SQLITE_MISMATCH)"

section \<open>\<open>parseInt\<close>\<close>

text \<open>
  \<open>parseInt(string)\<close> with no radix: leading white space is skipped, then an optional
  sign, then \<open>0x\<close> or \<open>0X\<close> selects radix 16, then the longest run of digits is read;
  with no digit the result is \<open>NaN\<close>, here \<open>None\<close>. A character is a code unit below
  256, so the white space is the ASCII one and the no-break space. The result is a
  JavaScript number: the integer read when it is below \<open>2 ^ 53\<close>, and from there on the
  nearest number of 53 significant bits, a tie going to the even one. (Beyond the largest
  such number JavaScript gives \<open>Infinity\<close>; as a \<open>LIMIT\<close> it fails like every value
  from \<open>2 ^ 63\<close> on.)
\<close>

definition is_white_space :: "char \<Rightarrow> bool" where
  "is_white_space c =
    (c \<in> set [CHR 0x09, CHR 0x0A, CHR 0x0B, CHR 0x0C, CHR 0x0D, CHR '' '', CHR 0xA0])"

fun bit_length :: "nat \<Rightarrow> nat" where
  "bit_length n = (if n = 0 then 0 else Suc (bit_length (n div 2)))"

declare bit_length.simps [simp del]

definition round_to_double :: "nat \<Rightarrow> nat" where
  "round_to_double a =
    (if a < 2 ^ 53 then a
     else
       let k = bit_length a - 53;
           q = a div 2 ^ k;
           r = a mod 2 ^ k;
           half = 2 ^ (k - 1)
       in (if r < half \<or> (r = half \<and> even q) then q else q + 1) * 2 ^ k)"

definition digit_value :: "char \<Rightarrow> nat" where
  "digit_value c =
    (let n = of_char c :: nat in
     if 48 \<le> n \<and> n \<le> 57 then n - 48
     else if 97 \<le> n \<and> n \<le> 122 then n - 87
     else if 65 \<le> n \<and> n \<le> 90 then n - 55
     else 36)"

definition parseInt :: "string \<Rightarrow> int option" where
  "parseInt inputString =
    (let S = dropWhile is_white_space inputString;
         sign = (if take 1 S = ''-'' then - 1 else 1 :: int);
         S = (if take 1 S = ''-'' \<or> take 1 S = ''+'' then drop 1 S else S);
         stripPrefix = (take 2 S = ''0x'' \<or> take 2 S = ''0X'');
         R = (if stripPrefix then 16 else 10 :: nat);
         S = (if stripPrefix then drop 2 S else S);
         Z = takeWhile (\<lambda>c. digit_value c < R) S
     in if Z = [] then None
        else Some (sign * int (round_to_double (foldl (\<lambda>n c. n * R + digit_value c) 0 Z))))"

section \<open>Notifications\<close>

text \<open>\<open>process.env.X || 'default'\<close>: an unset or empty variable gives the default.\<close>

definition env_or :: "string option \<Rightarrow> string \<Rightarrow> string" where
  "env_or v d = (case v of None \<Rightarrow> d | Some s \<Rightarrow> if s = [] then d else s)"

text \<open>
  Each function builds its \<open>mailOptions\<close>, awaits \<open>transporter.sendMail\<close> inside
  \<open>try\<close>, and logs the delivery or the error. It gives the message it handed to the
  transport and its console lines; nothing else leaves it.
\<close>

definition sendConsultationConfirmation ::
  "config \<Rightarrow> env \<Rightarrow> jsval \<Rightarrow> jsval \<Rightarrow> nat \<Rightarrow> mail list \<times> log_entry list" where
  "sendConsultationConfirmation cfg e email names consultationId =
    (let mailOptions = \<lparr>mail_from = env_or (SMTP_FROM cfg) ''hello@connectpair.co.uk'',
                         mail_to = email,
                         mail_template = ConfirmationTemplate names consultationId\<rparr>
     in ([mailOptions],
         if smtp_ok e mailOptions then [ConsoleLog ''Confirmation email sent to:'']
         else [ConsoleError ''Error sending confirmation email:'']))"

definition sendAdminNotification ::
  "config \<Rightarrow> env \<Rightarrow> nat \<Rightarrow> jsval \<Rightarrow> jsval \<Rightarrow> jsval \<Rightarrow> jsval \<Rightarrow> jsval \<Rightarrow> jsval
    \<Rightarrow> mail list \<times> log_entry list" where
  "sendAdminNotification cfg e consultationId relationshipType names email phone budget preferences =
    (let mailOptions = \<lparr>mail_from = env_or (SMTP_FROM cfg) ''hello@connectpair.co.uk'',
                         mail_to = Str (env_or (ADMIN_EMAIL cfg) ''admin@connectpair.co.uk''),
                         mail_template = AdminTemplate consultationId relationshipType names
                                           email phone budget preferences\<rparr>
     in ([mailOptions],
         if smtp_ok e mailOptions then [ConsoleLog ''Admin notification sent for consultation:'']
         else [ConsoleError ''Error sending admin notification:'']))"

definition sendWelcomeEmail :: "config \<Rightarrow> env \<Rightarrow> jsval \<Rightarrow> mail list \<times> log_entry list" where
  "sendWelcomeEmail cfg e email =
    (let mailOptions = \<lparr>mail_from = env_or (SMTP_FROM cfg) ''hello@connectpair.co.uk'',
                         mail_to = email,
                         mail_template = WelcomeTemplate\<rparr>
     in ([mailOptions],
         if smtp_ok e mailOptions then [ConsoleLog ''Welcome email sent to:'']
         else [ConsoleError ''Error sending welcome email:'']))"

section \<open>The handlers\<close>

text \<open>
  A destructuring default, \<open>const { limit = 10 } = req.query\<close>: it applies to an absent
  field only. The numeric defaults are written as the strings \<open>parseInt\<close> converts them
  to.
\<close>

definition with_default :: "jsval \<Rightarrow> jsval \<Rightarrow> jsval" where
  "with_default v d = (case v of Undefined \<Rightarrow> d | _ \<Rightarrow> v)"

subsection \<open>\<open>POST /api/consultation\<close>\<close>

text \<open>The call of \<open>db.run\<close> with the parameters the handler takes from the body.\<close>

definition db_run_consultation :: "env \<Rightarrow> store \<Rightarrow> fields \<Rightarrow> sql_error + (store \<times> nat)" where
  "db_run_consultation e db body =
    insert_consultation e db
      (body ''relationshipType'')
      (body ''names'')
      (body ''email'')
      (body ''phone'')
      (js_or (body ''anniversary'') Null)
      (js_or (body ''preferences'') (Str []))
      (body ''budget'')"

definition post_api_consultation ::
  "(string \<Rightarrow> bool) \<Rightarrow> config \<Rightarrow> env \<Rightarrow> store \<Rightarrow> fields \<Rightarrow> outcome" where
  "post_api_consultation is_email cfg e db body =
    (let errors = validationResult is_email consultationValidation body in
     if errors \<noteq> [] then
       \<lparr>out_response = Json400 errors, out_store = db, out_mails = [], out_log = []\<rparr>
     else
       case db_run_consultation e db body of
         Inl err \<Rightarrow>
           \<lparr>out_response = Json500 ''Database error'', out_store = db, out_mails = [],
            out_log = [ConsoleError ''Database error:'']\<rparr>
       | Inr (db', consultationId) \<Rightarrow>
           let (m1, l1) = sendConsultationConfirmation cfg e (body ''email'') (body ''names'')
                            consultationId;
               (m2, l2) = sendAdminNotification cfg e consultationId
                            (body ''relationshipType'') (body ''names'') (body ''email'')
                            (body ''phone'') (body ''budget'') (body ''preferences'')
           in \<lparr>out_response = ConsultationSubmitted consultationId, out_store = db',
               out_mails = m1 @ m2, out_log = l1 @ l2\<rparr>)"

subsection \<open>\<open>GET /api/numbers/search\<close>\<close>

definition numbers_where :: "jsval \<Rightarrow> jsval \<Rightarrow> phone_number_row \<Rightarrow> bool" where
  "numbers_where pattern area_code r =
    (sql_eq (pn_status r) (Some ''available'')
     \<and> (if truthy pattern then sql_eq (pn_pattern_type r) (bind_param pattern) else True)
     \<and> (if truthy area_code
        then sql_like (pn_number r) (bind_param (Str (ToString area_code @ ''%'')))
        else True))"

definition get_api_numbers_search :: "env \<Rightarrow> store \<Rightarrow> fields \<Rightarrow> outcome" where
  "get_api_numbers_search e db query =
    (let pattern = query ''pattern'';
         area_code = query ''area_code'';
         limit = with_default (query ''limit'') (Str ''10'')
     in case select_phone_numbers e db (numbers_where pattern area_code)
               (parseInt (ToString limit)) of
          Inl err \<Rightarrow>
            \<lparr>out_response = Json500 ''Database error'', out_store = db, out_mails = [],
             out_log = [ConsoleError ''Database error:'']\<rparr>
        | Inr rows \<Rightarrow>
            \<lparr>out_response = NumbersFound rows, out_store = db, out_mails = [],
             out_log = []\<rparr>)"

subsection \<open>\<open>POST /api/newsletter\<close>\<close>

definition post_api_newsletter ::
  "(string \<Rightarrow> bool) \<Rightarrow> config \<Rightarrow> env \<Rightarrow> store \<Rightarrow> fields \<Rightarrow> outcome" where
  "post_api_newsletter is_email cfg e db body =
    (let errors = validationResult is_email newsletterValidation body in
     if errors \<noteq> [] then
       \<lparr>out_response = Json400 errors, out_store = db, out_mails = [], out_log = []\<rparr>
     else
       let email = body ''email'';
           source = with_default (body ''source'') (Str ''newsletter'')
       in case insert_or_ignore_subscriber e db email source of
            Inl err \<Rightarrow>
              \<lparr>out_response = Json500 ''Database error'', out_store = db, out_mails = [],
               out_log = [ConsoleError ''Newsletter subscription error:'']\<rparr>
          | Inr db' \<Rightarrow>
              let (m, l) = sendWelcomeEmail cfg e email
              in \<lparr>out_response = NewsletterSubscribed, out_store = db', out_mails = m,
                  out_log = l\<rparr>)"

subsection \<open>\<open>GET /api/admin/consultations\<close>\<close>

definition consultations_where :: "jsval \<Rightarrow> consultation_row \<Rightarrow> bool" where
  "consultations_where status r =
    (if truthy status then sql_eq (con_status r) (bind_param status) else True)"

definition get_api_admin_consultations :: "env \<Rightarrow> store \<Rightarrow> fields \<Rightarrow> outcome" where
  "get_api_admin_consultations e db query =
    (let status = query ''status'';
         limit = with_default (query ''limit'') (Str ''50'');
         offset = with_default (query ''offset'') (Str ''0'')
     in case select_consultations e db (consultations_where status)
               (parseInt (ToString limit)) (parseInt (ToString offset)) of
          Inl err \<Rightarrow>
            \<lparr>out_response = Json500 ''Database error'', out_store = db, out_mails = [],
             out_log = [ConsoleError ''Database error:'']\<rparr>
        | Inr rows \<Rightarrow>
            \<lparr>out_response = ConsultationsFound rows, out_store = db, out_mails = [],
             out_log = []\<rparr>)"

section \<open>Concrete inputs\<close>

text \<open>
  The inputs the theorems below are instantiated at. \<open>contains_at\<close> stands for
  \<open>isEmail\<close> there: it accepts the strings that hold an \<open>@\<close>.
\<close>

definition contains_at :: "string \<Rightarrow> bool" where
  "contains_at s = (CHR ''@'' \<in> set s)"

definition empty_store :: store where
  "empty_store = \<lparr>consultations = [], consultations_seq = 0, customers = [],
     phone_numbers = [], orders = [], email_subscribers = [], email_subscribers_seq = 0\<rparr>"

definition example_config :: config where
  "example_config = \<lparr>SMTP_FROM = None, ADMIN_EMAIL = None\<rparr>"

definition working_env :: env where
  "working_env = \<lparr>db_fault = False, now = 1000, smtp_ok = (\<lambda>m. True)\<rparr>"

definition example_body :: fields where
  "example_body =
    (\<lambda>f. Undefined)
      (''relationshipType'' := Str ''couple'',
       ''names'' := Str ''Alice & Bob'',
       ''email'' := Str ''a@example.com'',
       ''phone'' := Str ''555-0100'',
       ''budget'' := Str ''premium'')"

definition example_row :: consultation_row where
  "example_row = \<lparr>con_id = 1, con_relationship_type = ''couple'', con_names = ''Alice & Bob'',
     con_email = ''a@example.com'', con_phone = ''555-0100'', con_anniversary = None,
     con_preferences = Some [], con_budget = ''premium'', con_status = Some ''pending'',
     con_created_at = 1000, con_updated_at = 1000\<rparr>"

text \<open>
  The fields the consultation form requires, and when a submission violates one: the
  field is absent, null or empty, or, for the email, not a well-formed address.
\<close>

definition required_fields :: "string list" where
  "required_fields = [''relationshipType'', ''names'', ''email'', ''phone'', ''budget'']"

definition field_violated :: "(string \<Rightarrow> bool) \<Rightarrow> fields \<Rightarrow> string \<Rightarrow> bool" where
  "field_violated is_email body f =
    (case body f of
       Undefined \<Rightarrow> True
     | Null \<Rightarrow> True
     | Str s \<Rightarrow> if f = ''email'' then \<not> is_email s else s = [])"

text \<open>The seven fields of the consultation form.\<close>

definition submitted_fields :: "string list" where
  "submitted_fields = [''relationshipType'', ''names'', ''email'', ''phone'', ''anniversary'',
     ''preferences'', ''budget'']"

definition incomplete_body :: fields where
  "incomplete_body =
    (\<lambda>f. Undefined)
      (''relationshipType'' := Str ''couple'',
       ''email'' := Str ''not an address'',
       ''phone'' := Str ''555-0100'')"

definition failing_env :: env where
  "failing_env = \<lparr>db_fault = True, now = 1000, smtp_ok = (\<lambda>m. True)\<rparr>"

text \<open>The example submission with three fields no part of the form.\<close>

definition tampered_body :: fields where
  "tampered_body =
    example_body
      (''status'' := Str ''approved'',
       ''id'' := Str ''999'',
       ''created_at'' := Str ''1999-01-01 00:00:00'')"

text \<open>The console line each notification function writes when the transport rejects.\<close>

fun failure_line :: "template \<Rightarrow> string" where
  "failure_line (ConfirmationTemplate names consultationId) = ''Error sending confirmation email:''"
| "failure_line (AdminTemplate consultationId relationshipType names email phone budget preferences) =
     ''Error sending admin notification:''"
| "failure_line WelcomeTemplate = ''Error sending welcome email:''"

text \<open>A transport that rejects every message, a signup, and a store that already holds it.\<close>

definition dead_transport :: "mail \<Rightarrow> bool" where
  "dead_transport m = False"

definition newsletter_body :: fields where
  "newsletter_body = (\<lambda>f. Undefined)(''email'' := Str ''a@example.com'')"

definition example_subscriber :: email_subscriber_row where
  "example_subscriber = \<lparr>sub_id = 1, sub_email = ''a@example.com'', sub_source = Some ''newsletter'',
     sub_status = Some ''active'', sub_created_at = 1000\<rparr>"

definition subscribed_store :: store where
  "subscribed_store = empty_store\<lparr>email_subscribers := [example_subscriber],
     email_subscribers_seq := 1\<rparr>"

definition welcome_mail :: mail where
  "welcome_mail = \<lparr>mail_from = ''hello@connectpair.co.uk'', mail_to = Str ''a@example.com'',
     mail_template = WelcomeTemplate\<rparr>"

definition confirmation_mail :: mail where
  "confirmation_mail = \<lparr>mail_from = ''hello@connectpair.co.uk'', mail_to = Str ''a@example.com'',
     mail_template = ConfirmationTemplate (Str ''Alice & Bob'') 1\<rparr>"

text \<open>Stores and queries for the two read endpoints.\<close>

definition newer_row :: consultation_row where
  "newer_row = \<lparr>con_id = 2, con_relationship_type = ''friends'', con_names = ''Carol & Dan'',
     con_email = ''c@example.com'', con_phone = ''555-0101'', con_anniversary = None,
     con_preferences = Some [], con_budget = ''basic'', con_status = Some ''pending'',
     con_created_at = 2000, con_updated_at = 2000\<rparr>"

definition two_consultations :: store where
  "two_consultations = empty_store\<lparr>consultations := [example_row, newer_row],
     consultations_seq := 2\<rparr>"

text \<open>A second submission, and the store after both arrived within one second.\<close>

definition second_body :: fields where
  "second_body =
    (\<lambda>f. Undefined)
      (''relationshipType'' := Str ''friends'',
       ''names'' := Str ''Carol & Dan'',
       ''email'' := Str ''c@example.com'',
       ''phone'' := Str ''555-0101'',
       ''budget'' := Str ''basic'')"

definition same_second_row :: consultation_row where
  "same_second_row = \<lparr>con_id = 2, con_relationship_type = ''friends'',
     con_names = ''Carol & Dan'', con_email = ''c@example.com'', con_phone = ''555-0101'',
     con_anniversary = None, con_preferences = Some [], con_budget = ''basic'',
     con_status = Some ''pending'', con_created_at = 1000, con_updated_at = 1000\<rparr>"

definition same_second_store :: store where
  "same_second_store = empty_store\<lparr>consultations := [example_row, same_second_row],
     consultations_seq := 2\<rparr>"

definition first_page_query :: fields where
  "first_page_query = (\<lambda>f. Undefined)(''limit'' := Str ''1'', ''offset'' := Str ''0'')"

text \<open>A decimal digit, the alphabet of an area code.\<close>

definition is_digit :: "char \<Rightarrow> bool" where
  "is_digit c = (48 \<le> (of_char c :: nat) \<and> (of_char c :: nat) \<le> 57)"

definition example_number :: phone_number_row where
  "example_number = \<lparr>pn_id = 1, pn_number = ''07700900123'', pn_pattern_type = Some ''mirror'',
     pn_customer_id = None, pn_partner_number_id = None, pn_status = Some ''available'',
     pn_purchase_price = Some 4999, pn_monthly_fee = Some 999, pn_created_at = 1000\<rparr>"

definition sold_number :: phone_number_row where
  "sold_number = \<lparr>pn_id = 2, pn_number = ''07700900321'', pn_pattern_type = Some ''mirror'',
     pn_customer_id = Some 1, pn_partner_number_id = None, pn_status = Some ''sold'',
     pn_purchase_price = Some 4999, pn_monthly_fee = Some 999, pn_created_at = 1000\<rparr>"

definition numbered :: "nat \<Rightarrow> phone_number_row" where
  "numbered i = example_number\<lparr>pn_id := i + 3, pn_number := ''0770090'' @ replicate i (CHR ''5'')\<rparr>"

definition number_store :: store where
  "number_store = empty_store\<lparr>phone_numbers := [example_number, sold_number]\<rparr>"

definition large_number_store :: store where
  "large_number_store = empty_store\<lparr>phone_numbers := sold_number # map numbered [0..<12]\<rparr>"

definition no_query :: fields where
  "no_query = (\<lambda>f. Undefined)"

definition wildcard_query :: fields where
  "wildcard_query = (\<lambda>f. Undefined)(''area_code'' := Str ''_'')"

section \<open>Facts about the store and the validators\<close>

lemma fold_max_ge: "seq \<le> fold max ids (seq::nat)"
  by (induction ids arbitrary: seq) (auto intro: order_trans[OF max.cobounded2])

lemma fold_max_mem: "i \<in> set ids \<Longrightarrow> i \<le> fold max ids (seq::nat)"
proof (induction ids arbitrary: seq)
  case Nil then show ?case by simp
next
  case (Cons a ids)
  show ?case
  proof (cases "i = a")
    case True
    have "a \<le> max a seq" by simp
    also have "\<dots> \<le> fold max ids (max a seq)" by (rule fold_max_ge)
    finally show ?thesis using True by simp
  next
    case False
    with Cons show ?thesis by simp
  qed
qed

lemma next_rowid_fresh: "i \<in> set ids \<Longrightarrow> i < next_rowid seq ids"
  using fold_max_mem[of i ids seq] by (simp add: next_rowid_def)

lemma next_rowid_pos: "0 < next_rowid seq ids"
  by (simp add: next_rowid_def)

lemma validation_passed:
  "validationResult is_email consultationValidation body = [] \<longleftrightarrow>
     validator_string (body ''relationshipType'') \<noteq> [] \<and>
     validator_string (body ''names'') \<noteq> [] \<and>
     is_email (validator_string (body ''email'')) \<and>
     validator_string (body ''phone'') \<noteq> [] \<and>
     validator_string (body ''budget'') \<noteq> []"
  by (simp add: validationResult_def consultationValidation_def)

lemma insert_consultation_Inr:
  assumes "insert_consultation e db rt n em ph an pr b = Inr (db', lastID)"
  shows "\<exists>row. db' = db\<lparr>consultations := consultations db @ [row], consultations_seq := lastID\<rparr>
      \<and> lastID = next_rowid (consultations_seq db) (map con_id (consultations db))
      \<and> con_id row = lastID
      \<and> rt = Str (con_relationship_type row) \<and> n = Str (con_names row)
      \<and> em = Str (con_email row) \<and> ph = Str (con_phone row) \<and> b = Str (con_budget row)
      \<and> con_anniversary row = bind_param an \<and> con_preferences row = bind_param pr
      \<and> con_status row = Some ''pending''
      \<and> con_created_at row = now e \<and> con_updated_at row = now e"
  using assms
  apply (cases rt; cases n; cases em; cases ph; cases b)
  apply (simp_all add: insert_consultation_def Let_def split: if_splits)
  apply auto
  done

lemma example_body_valid:
  "validationResult contains_at consultationValidation example_body = []"
  by (simp add: validation_passed example_body_def contains_at_def)

lemma example_insert:
  "db_run_consultation working_env empty_store example_body =
     Inr (empty_store\<lparr>consultations := [example_row], consultations_seq := 1\<rparr>, 1)"
  by (simp add: db_run_consultation_def insert_consultation_def example_body_def
      working_env_def empty_store_def example_row_def js_or_def next_rowid_def)

section \<open>Consultation submission\<close>

text \<open>
  C1. A consultation submission that passes validation and whose insert succeeds is
  answered with success and the identifier the store generated, which is positive. The
  store then holds exactly one more consultation row, the only one with that identifier;
  its relationship type, names, email, phone and budget are the submitted values, its
  anniversary is NULL when the field was absent and its preferences are the empty
  string when the field was absent.
\<close>

theorem consultation_submitted:
  assumes valid: "validationResult is_email consultationValidation body = []"
    and ins: "db_run_consultation e db body = Inr (db', lastID)"
  shows "out_response (post_api_consultation is_email cfg e db body) = ConsultationSubmitted lastID
       \<and> 0 < lastID
       \<and> out_store (post_api_consultation is_email cfg e db body) = db'
       \<and> (\<exists>row. consultations db' = consultations db @ [row]
             \<and> con_id row = lastID
             \<and> (\<forall>r \<in> set (consultations db). con_id r \<noteq> lastID)
             \<and> body ''relationshipType'' = Str (con_relationship_type row)
             \<and> body ''names'' = Str (con_names row)
             \<and> body ''email'' = Str (con_email row)
             \<and> body ''phone'' = Str (con_phone row)
             \<and> body ''budget'' = Str (con_budget row)
             \<and> (body ''anniversary'' = Undefined \<longrightarrow> con_anniversary row = None)
             \<and> (body ''preferences'' = Undefined \<longrightarrow> con_preferences row = Some []))"
proof -
  let ?out = "post_api_consultation is_email cfg e db body"
  from ins obtain row where
    db': "db' = db\<lparr>consultations := consultations db @ [row], consultations_seq := lastID\<rparr>"
    and lastID: "lastID = next_rowid (consultations_seq db) (map con_id (consultations db))"
    and row: "con_id row = lastID"
      "body ''relationshipType'' = Str (con_relationship_type row)"
      "body ''names'' = Str (con_names row)"
      "body ''email'' = Str (con_email row)"
      "body ''phone'' = Str (con_phone row)"
      "body ''budget'' = Str (con_budget row)"
    and opt: "con_anniversary row = bind_param (js_or (body ''anniversary'') Null)"
      "con_preferences row = bind_param (js_or (body ''preferences'') (Str []))"
    unfolding db_run_consultation_def by (blast dest: insert_consultation_Inr)
  have resp: "out_response ?out = ConsultationSubmitted lastID" and st: "out_store ?out = db'"
    using valid ins
    by (simp_all add: post_api_consultation_def sendConsultationConfirmation_def
        sendAdminNotification_def Let_def)
  have pos: "0 < lastID" by (simp add: lastID next_rowid_pos)
  have fresh: "\<forall>r \<in> set (consultations db). con_id r \<noteq> lastID"
  proof
    fix r assume "r \<in> set (consultations db)"
    then have "con_id r \<in> set (map con_id (consultations db))" by simp
    then have "con_id r < lastID" unfolding lastID by (rule next_rowid_fresh)
    then show "con_id r \<noteq> lastID" by simp
  qed
  have rows: "consultations db' = consultations db @ [row]" by (simp add: db')
  have ann: "body ''anniversary'' = Undefined \<longrightarrow> con_anniversary row = None"
    by (simp add: opt js_or_def)
  have pre: "body ''preferences'' = Undefined \<longrightarrow> con_preferences row = Some []"
    by (simp add: opt js_or_def)
  from resp st pos rows row fresh ann pre show ?thesis by blast
qed

theorem consultation_submitted_witness:
  "validationResult contains_at consultationValidation example_body = []
   \<and> db_run_consultation working_env empty_store example_body =
       Inr (empty_store\<lparr>consultations := [example_row], consultations_seq := 1\<rparr>, 1)
   \<and> out_response (post_api_consultation contains_at example_config working_env empty_store
        example_body) = ConsultationSubmitted 1
   \<and> example_body ''anniversary'' = Undefined \<and> con_anniversary example_row = None
   \<and> example_body ''preferences'' = Undefined \<and> con_preferences example_row = Some []"
proof -
  have "example_body ''anniversary'' = Undefined" "example_body ''preferences'' = Undefined"
    by (simp_all add: example_body_def)
  moreover have "con_anniversary example_row = None" "con_preferences example_row = Some []"
    by (simp_all add: example_row_def)
  ultimately show ?thesis
    using consultation_submitted [OF example_body_valid example_insert, of example_config]
      example_body_valid example_insert
    by simp
qed

lemma err_paths:
  "map err_path (validationResult is_email cs body) =
     map fst (filter (\<lambda>(path, v, msg). \<not> run_validator is_email v (body path)) cs)"
  by (simp add: validationResult_def comp_def case_prod_beta)

lemma chain_violated:
  assumes "\<not> is_email []" and "c \<in> set consultationValidation"
  shows "(\<not> run_validator is_email (fst (snd c)) (body (fst c))) = field_violated is_email body (fst c)"
  using assms
  by (cases "body (fst c)") (auto simp: consultationValidation_def field_violated_def)

lemma consultation_err_paths:
  assumes "\<not> is_email []"
  shows "map err_path (validationResult is_email consultationValidation body) =
         filter (field_violated is_email body) required_fields"
proof -
  have rf: "required_fields = map fst consultationValidation"
    by (simp add: required_fields_def consultationValidation_def)
  have "filter (\<lambda>(path, v, msg). \<not> run_validator is_email v (body path)) consultationValidation
      = filter (field_violated is_email body \<circ> fst) consultationValidation"
  proof (rule filter_cong[OF refl])
    fix c assume "c \<in> set consultationValidation"
    with assms have "(\<not> run_validator is_email (fst (snd c)) (body (fst c)))
        = field_violated is_email body (fst c)"
      by (rule chain_violated)
    then show "(case c of (path, v, msg) \<Rightarrow> \<not> run_validator is_email v (body path))
        = (field_violated is_email body \<circ> fst) c"
      by (simp add: case_prod_beta)
  qed
  then show ?thesis
    by (simp add: err_paths rf filter_map)
qed

text \<open>
  C2. When a required field of a consultation submission is missing (or null or empty)
  or its email is not well formed, the response is the validation failure (status 400)
  whose errors name every violated field, in the order of the form, not only the first
  one; the store is unchanged in every table and no message is handed to the mail
  transport. \<open>isEmail\<close> is taken to reject the empty string.
\<close>

theorem consultation_rejected:
  assumes empty: "\<not> is_email []"
    and bad: "\<exists>f \<in> set required_fields. field_violated is_email body f"
  shows "\<exists>errors. out_response (post_api_consultation is_email cfg e db body) = Json400 errors
         \<and> map err_path errors = filter (field_violated is_email body) required_fields
         \<and> errors \<noteq> []
         \<and> out_store (post_api_consultation is_email cfg e db body) = db
         \<and> out_mails (post_api_consultation is_email cfg e db body) = []"
proof -
  let ?errors = "validationResult is_email consultationValidation body"
  have paths: "map err_path ?errors = filter (field_violated is_email body) required_fields"
    using empty by (rule consultation_err_paths)
  from bad have "filter (field_violated is_email body) required_fields \<noteq> []"
    by (simp add: filter_empty_conv)
  with paths have ne: "?errors \<noteq> []" by auto
  then have "out_response (post_api_consultation is_email cfg e db body) = Json400 ?errors"
    "out_store (post_api_consultation is_email cfg e db body) = db"
    "out_mails (post_api_consultation is_email cfg e db body) = []"
    by (simp_all add: post_api_consultation_def)
  with paths ne show ?thesis by blast
qed

lemma incomplete_body_violations:
  "filter (field_violated contains_at incomplete_body) required_fields = [''names'', ''email'', ''budget'']"
  by (simp add: field_violated_def incomplete_body_def required_fields_def contains_at_def)

theorem consultation_rejected_witness:
  "\<not> contains_at []
   \<and> incomplete_body ''names'' = Undefined
   \<and> (\<exists>errors. out_response (post_api_consultation contains_at example_config working_env
          empty_store incomplete_body) = Json400 errors
        \<and> map err_path errors = [''names'', ''email'', ''budget''])
   \<and> out_store (post_api_consultation contains_at example_config working_env empty_store
        incomplete_body) = empty_store"
proof -
  have e: "\<not> contains_at []" by (simp add: contains_at_def)
  have u: "incomplete_body ''names'' = Undefined" by (simp add: incomplete_body_def)
  have b: "\<exists>f \<in> set required_fields. field_violated contains_at incomplete_body f"
    using u by (auto simp: required_fields_def field_violated_def)
  from consultation_rejected [of contains_at incomplete_body example_config working_env
      empty_store, OF e b] e u
  show ?thesis by (auto simp: incomplete_body_violations)
qed

text \<open>
  C3. When the insert of a consultation submission fails, the response is the failure
  with status 500, the store is unchanged, so it holds no new consultation row, and
  neither the customer confirmation nor the admin alert is handed to the mail transport.
\<close>

theorem consultation_insert_failure:
  assumes valid: "validationResult is_email consultationValidation body = []"
    and ins: "db_run_consultation e db body = Inl err"
  shows "out_response (post_api_consultation is_email cfg e db body) = Json500 ''Database error''
       \<and> status_code (out_response (post_api_consultation is_email cfg e db body)) = 500
       \<and> out_store (post_api_consultation is_email cfg e db body) = db
       \<and> out_mails (post_api_consultation is_email cfg e db body) = []"
  using valid ins by (simp add: post_api_consultation_def)

lemma failing_insert:
  "db_run_consultation failing_env empty_store example_body = Inl SQLITE_ERROR"
  by (simp add: db_run_consultation_def insert_consultation_def failing_env_def)

theorem consultation_insert_failure_witness:
  "validationResult contains_at consultationValidation example_body = []
   \<and> db_run_consultation failing_env empty_store example_body = Inl SQLITE_ERROR
   \<and> out_response (post_api_consultation contains_at example_config failing_env empty_store
        example_body) = Json500 ''Database error''
   \<and> out_store (post_api_consultation contains_at example_config failing_env empty_store
        example_body) = empty_store
   \<and> out_mails (post_api_consultation contains_at example_config failing_env empty_store
        example_body) = []"
  using consultation_insert_failure [OF example_body_valid failing_insert, of example_config]
    example_body_valid failing_insert
  by simp


lemma consultation_reads_submitted_fields:
  assumes "\<forall>f \<in> set submitted_fields. body' f = body f"
  shows "post_api_consultation is_email cfg e db body' = post_api_consultation is_email cfg e db body"
proof -
  from assms have eq: "body' ''relationshipType'' = body ''relationshipType''"
    "body' ''names'' = body ''names''" "body' ''email'' = body ''email''"
    "body' ''phone'' = body ''phone''" "body' ''anniversary'' = body ''anniversary''"
    "body' ''preferences'' = body ''preferences''" "body' ''budget'' = body ''budget''"
    by (simp_all add: submitted_fields_def)
  have v: "validationResult is_email consultationValidation body'
      = validationResult is_email consultationValidation body"
    by (simp add: validationResult_def consultationValidation_def eq)
  have d: "db_run_consultation e db body' = db_run_consultation e db body"
    by (simp add: db_run_consultation_def eq)
  show ?thesis
    unfolding post_api_consultation_def v d eq ..
qed

lemma consultation_stored:
  assumes "validationResult is_email consultationValidation body = []"
    and "db_run_consultation e db body = Inr (db', lastID)"
  shows "out_store (post_api_consultation is_email cfg e db body) = db'"
  using assms
  by (simp add: post_api_consultation_def sendConsultationConfirmation_def
      sendAdminNotification_def Let_def)

lemma consultation_response_cases:
  "out_response (post_api_consultation is_email cfg e db body) = ConsultationSubmitted i
   \<Longrightarrow> validationResult is_email consultationValidation body = []
       \<and> (\<exists>db'. db_run_consultation e db body = Inr (db', i)
             \<and> out_store (post_api_consultation is_email cfg e db body) = db')"
  by (auto simp: post_api_consultation_def Let_def sendConsultationConfirmation_def
      sendAdminNotification_def split: if_splits sum.splits prod.splits)

text \<open>
  C10. The consultation handler reads the seven submitted fields only: two bodies that
  agree on them have the same outcome, whatever else they carry (a status, an id, a
  timestamp). Every row the handler creates has status \<open>pending\<close>, the identifier the
  store generated and the time of the insert as its timestamps.
\<close>

theorem consultation_row_pending:
  assumes same: "\<forall>f \<in> set submitted_fields. body' f = body f"
  shows "post_api_consultation is_email cfg e db body' = post_api_consultation is_email cfg e db body
       \<and> (\<forall>i. out_response (post_api_consultation is_email cfg e db body) = ConsultationSubmitted i
            \<longrightarrow> (\<exists>row. consultations (out_store (post_api_consultation is_email cfg e db body))
                          = consultations db @ [row]
                   \<and> con_id row = i
                   \<and> con_status row = Some ''pending''
                   \<and> con_created_at row = now e
                   \<and> con_updated_at row = now e))"
proof (intro conjI allI impI)
  show "post_api_consultation is_email cfg e db body' = post_api_consultation is_email cfg e db body"
    using same by (rule consultation_reads_submitted_fields)
next
  fix i
  let ?out = "post_api_consultation is_email cfg e db body"
  assume "out_response ?out = ConsultationSubmitted i"
  then obtain db' where ins: "db_run_consultation e db body = Inr (db', i)"
    and st: "out_store ?out = db'"
    by (blast dest: consultation_response_cases)
  from ins obtain row where
    "db' = db\<lparr>consultations := consultations db @ [row], consultations_seq := i\<rparr>"
    "con_id row = i" "con_status row = Some ''pending''"
    "con_created_at row = now e" "con_updated_at row = now e"
    unfolding db_run_consultation_def by (blast dest: insert_consultation_Inr)
  with st show "\<exists>row. consultations (out_store ?out) = consultations db @ [row]
      \<and> con_id row = i \<and> con_status row = Some ''pending''
      \<and> con_created_at row = now e \<and> con_updated_at row = now e"
    by simp
qed

lemma example_outcome:
  "post_api_consultation contains_at example_config working_env empty_store example_body =
     \<lparr>out_response = ConsultationSubmitted 1,
      out_store = empty_store\<lparr>consultations := [example_row], consultations_seq := 1\<rparr>,
      out_mails =
        [\<lparr>mail_from = ''hello@connectpair.co.uk'', mail_to = Str ''a@example.com'',
          mail_template = ConfirmationTemplate (Str ''Alice & Bob'') 1\<rparr>,
         \<lparr>mail_from = ''hello@connectpair.co.uk'', mail_to = Str ''admin@connectpair.co.uk'',
          mail_template = AdminTemplate 1 (Str ''couple'') (Str ''Alice & Bob'')
            (Str ''a@example.com'') (Str ''555-0100'') (Str ''premium'') Undefined\<rparr>],
      out_log = [ConsoleLog ''Confirmation email sent to:'',
                 ConsoleLog ''Admin notification sent for consultation:'']\<rparr>"
proof -
  have b: "example_body ''relationshipType'' = Str ''couple''"
    "example_body ''names'' = Str ''Alice & Bob''"
    "example_body ''email'' = Str ''a@example.com''"
    "example_body ''phone'' = Str ''555-0100''"
    "example_body ''budget'' = Str ''premium''"
    "example_body ''preferences'' = Undefined"
    by (simp_all add: example_body_def)
  have c: "env_or (SMTP_FROM example_config) d = d" "env_or (ADMIN_EMAIL example_config) d = d" for d
    by (simp_all add: env_or_def example_config_def)
  have w: "smtp_ok working_env m" for m by (simp add: working_env_def)
  show ?thesis
    by (simp add: post_api_consultation_def example_body_valid example_insert
        sendConsultationConfirmation_def sendAdminNotification_def b c w)
qed

theorem consultation_row_pending_witness:
  "map tampered_body submitted_fields = map example_body submitted_fields
   \<and> tampered_body ''status'' = Str ''approved''
   \<and> out_response (post_api_consultation contains_at example_config working_env empty_store
        tampered_body) = ConsultationSubmitted 1
   \<and> consultations (out_store (post_api_consultation contains_at example_config working_env
        empty_store tampered_body)) = [example_row]
   \<and> con_status example_row = Some ''pending''"
proof -
  have same: "\<forall>f \<in> set submitted_fields. tampered_body f = example_body f"
    by (simp add: submitted_fields_def tampered_body_def)
  have t: "tampered_body ''status'' = Str ''approved''"
    by (simp add: tampered_body_def)
  have p: "con_status example_row = Some ''pending''"
    by (simp add: example_row_def)
  from consultation_row_pending [OF same, of contains_at example_config working_env empty_store]
  have "post_api_consultation contains_at example_config working_env empty_store tampered_body
      = post_api_consultation contains_at example_config working_env empty_store example_body"
    by (rule conjunct1)
  with same t p show ?thesis
    by (simp add: example_outcome map_eq_conv)
qed

section \<open>Newsletter signup\<close>

lemma newsletter_valid:
  "validationResult is_email newsletterValidation body = [] \<longleftrightarrow>
     is_email (validator_string (body ''email''))"
  by (simp add: validationResult_def newsletterValidation_def)

lemma unique_key_once:
  "distinct (map f xs) \<Longrightarrow> a \<in> set (map f xs) \<Longrightarrow> length (filter (\<lambda>r. f r = a) xs) = 1"
proof (induction xs)
  case Nil
  then show ?case by simp
next
  case (Cons x xs)
  show ?case
  proof (cases "f x = a")
    case True
    with Cons.prems(1) have "a \<notin> f ` set xs" by simp
    then have "filter (\<lambda>r. f r = a) xs = []"
      by (auto simp: filter_empty_conv)
    with True show ?thesis by simp
  next
    case False
    with Cons show ?thesis by simp
  qed
qed

lemma insert_or_ignore_rows:
  assumes "insert_or_ignore_subscriber e db email source = Inr db'"
  shows "email_subscribers db' = email_subscribers db
       \<or> (\<exists>em row. email = Str em \<and> em \<notin> set (map sub_email (email_subscribers db))
             \<and> sub_email row = em \<and> email_subscribers db' = email_subscribers db @ [row])"
  using assms
  by (cases email) (auto simp: insert_or_ignore_subscriber_def Let_def split: if_splits)

lemma insert_or_ignore_duplicate:
  assumes "insert_or_ignore_subscriber e db (Str address) source = Inr db'"
    and "address \<in> set (map sub_email (email_subscribers db))"
  shows "email_subscribers db' = email_subscribers db"
  using insert_or_ignore_rows[OF assms(1)] assms(2) by auto

lemma insert_or_ignore_count:
  assumes "insert_or_ignore_subscriber e db (Str address) source = Inr db'"
    and "distinct (map sub_email (email_subscribers db))"
  shows "length (filter (\<lambda>r. sub_email r = address) (email_subscribers db')) = 1"
proof (cases "address \<in> set (map sub_email (email_subscribers db))")
  case True
  with assms(1) have "email_subscribers db' = email_subscribers db"
    by (rule insert_or_ignore_duplicate)
  moreover from assms(2) True
  have "length (filter (\<lambda>r. sub_email r = address) (email_subscribers db)) = 1"
    by (rule unique_key_once)
  ultimately show ?thesis by simp
next
  case False
  then have none: "filter (\<lambda>r. sub_email r = address) (email_subscribers db) = []"
    by (auto simp: filter_empty_conv)
  from False assms(1) obtain row where
    "email_subscribers db' = email_subscribers db @ [row]" "sub_email row = address"
    by (auto simp: insert_or_ignore_subscriber_def Let_def split: if_splits)
  with none show ?thesis by simp
qed

lemma insert_or_ignore_ok:
  assumes "\<not> db_fault e"
  shows "\<exists>db'. insert_or_ignore_subscriber e db email source = Inr db'"
  using assms by (simp add: insert_or_ignore_subscriber_def Let_def split: option.splits)

lemma insert_or_ignore_present:
  assumes "insert_or_ignore_subscriber e db (Str address) source = Inr db'"
  shows "address \<in> set (map sub_email (email_subscribers db'))"
  using assms by (auto simp: insert_or_ignore_subscriber_def Let_def split: if_splits)

lemma newsletter_outcome:
  assumes "validationResult is_email newsletterValidation body = []"
    and "insert_or_ignore_subscriber e db (body ''email'')
           (with_default (body ''source'') (Str ''newsletter'')) = Inr db'"
  shows "out_response (post_api_newsletter is_email cfg e db body) = NewsletterSubscribed"
    and "out_store (post_api_newsletter is_email cfg e db body) = db'"
    and "out_mails (post_api_newsletter is_email cfg e db body) =
           [\<lparr>mail_from = env_or (SMTP_FROM cfg) ''hello@connectpair.co.uk'',
             mail_to = body ''email'', mail_template = WelcomeTemplate\<rparr>]"
  using assms by (simp_all add: post_api_newsletter_def sendWelcomeEmail_def Let_def)

text \<open>
  C4. Submitting the same well-formed email to the newsletter signup twice, the store
  holding at most one row for each email as its \<open>UNIQUE\<close> constraint makes it and
  the engine failing neither statement, is answered with success both times; the second
  insert is ignored and leaves the subscriber rows as the first left them, with exactly
  one row for that email.
\<close>

theorem newsletter_twice:
  assumes wf: "is_email address"
    and body: "body ''email'' = Str address" "body' ''email'' = Str address"
    and uniq: "distinct (map sub_email (email_subscribers db))"
    and ok: "\<not> db_fault e" "\<not> db_fault e'"
  shows "out_response (post_api_newsletter is_email cfg e db body) = NewsletterSubscribed
       \<and> out_response (post_api_newsletter is_email cfg e'
            (out_store (post_api_newsletter is_email cfg e db body)) body') = NewsletterSubscribed
       \<and> email_subscribers (out_store (post_api_newsletter is_email cfg e'
            (out_store (post_api_newsletter is_email cfg e db body)) body'))
          = email_subscribers (out_store (post_api_newsletter is_email cfg e db body))
       \<and> length (filter (\<lambda>r. sub_email r = address)
            (email_subscribers (out_store (post_api_newsletter is_email cfg e'
               (out_store (post_api_newsletter is_email cfg e db body)) body')))) = 1"
proof -
  let ?first = "post_api_newsletter is_email cfg e db body"
  let ?second = "post_api_newsletter is_email cfg e' (out_store ?first) body'"
  have v: "validationResult is_email newsletterValidation body = []"
    "validationResult is_email newsletterValidation body' = []"
    using wf body by (simp_all add: newsletter_valid)
  from ok(1) obtain db1 where
    i1: "insert_or_ignore_subscriber e db (Str address)
           (with_default (body ''source'') (Str ''newsletter'')) = Inr db1"
    using insert_or_ignore_ok by blast
  have r1: "out_response ?first = NewsletterSubscribed" and s1: "out_store ?first = db1"
    using newsletter_outcome[OF v(1)] i1 body(1) by simp_all
  from i1 have present: "address \<in> set (map sub_email (email_subscribers db1))"
    by (rule insert_or_ignore_present)
  from ok(2) obtain db2 where
    i2: "insert_or_ignore_subscriber e' db1 (Str address)
           (with_default (body' ''source'') (Str ''newsletter'')) = Inr db2"
    using insert_or_ignore_ok by blast
  have r2: "out_response ?second = NewsletterSubscribed" and s2: "out_store ?second = db2"
    unfolding s1 using newsletter_outcome[OF v(2)] i2 body(2) by simp_all
  from i2 present have same: "email_subscribers db2 = email_subscribers db1"
    by (rule insert_or_ignore_duplicate)
  from i1 uniq have "length (filter (\<lambda>r. sub_email r = address) (email_subscribers db1)) = 1"
    by (rule insert_or_ignore_count)
  with r1 r2 s1 s2 same show ?thesis by simp
qed

lemma newsletter_body_email: "newsletter_body ''email'' = Str ''a@example.com''"
  by (simp add: newsletter_body_def)

lemma example_address: "contains_at ''a@example.com''"
  by (simp add: contains_at_def)

lemma empty_store_distinct: "distinct (map sub_email (email_subscribers empty_store))"
  by (simp add: empty_store_def)

lemma working_env_ok: "\<not> db_fault working_env"
  by (simp add: working_env_def)

lemma newsletter_body_valid:
  "validationResult contains_at newsletterValidation newsletter_body = []"
  by (simp add: newsletter_valid newsletter_body_email example_address)

lemma first_signup:
  "out_store (post_api_newsletter contains_at example_config working_env empty_store
     newsletter_body) = subscribed_store"
proof -
  have "insert_or_ignore_subscriber working_env empty_store (Str ''a@example.com'')
      (with_default (newsletter_body ''source'') (Str ''newsletter'')) = Inr subscribed_store"
    by (simp add: insert_or_ignore_subscriber_def working_env_def empty_store_def
        subscribed_store_def example_subscriber_def next_rowid_def with_default_def
        newsletter_body_def)
  then show ?thesis
    using newsletter_outcome(2)[of contains_at newsletter_body working_env empty_store
        subscribed_store example_config] newsletter_body_valid
    by (simp add: newsletter_body_email)
qed

lemma second_signup:
  "out_store (post_api_newsletter contains_at example_config working_env subscribed_store
     newsletter_body) = subscribed_store\<lparr>email_subscribers_seq := 2\<rparr>"
proof -
  have "insert_or_ignore_subscriber working_env subscribed_store (Str ''a@example.com'')
      (with_default (newsletter_body ''source'') (Str ''newsletter''))
      = Inr (subscribed_store\<lparr>email_subscribers_seq := 2\<rparr>)"
    by (simp add: insert_or_ignore_subscriber_def working_env_def empty_store_def
        subscribed_store_def example_subscriber_def next_rowid_def with_default_def
        newsletter_body_def)
  then show ?thesis
    using newsletter_outcome(2)[of contains_at newsletter_body working_env subscribed_store
        "subscribed_store\<lparr>email_subscribers_seq := 2\<rparr>" example_config] newsletter_body_valid
    by (simp add: newsletter_body_email)
qed

theorem newsletter_twice_witness:
  "contains_at ''a@example.com''
   \<and> newsletter_body ''email'' = Str ''a@example.com''
   \<and> distinct (map sub_email (email_subscribers empty_store))
   \<and> out_response (post_api_newsletter contains_at example_config working_env subscribed_store
        newsletter_body) = NewsletterSubscribed
   \<and> email_subscribers (out_store (post_api_newsletter contains_at example_config working_env
        subscribed_store newsletter_body)) = [example_subscriber]"
proof -
  have "email_subscribers subscribed_store = [example_subscriber]"
    by (simp add: subscribed_store_def)
  then show ?thesis
    using newsletter_twice [of contains_at "''a@example.com''" newsletter_body newsletter_body
        empty_store working_env working_env example_config,
        OF example_address newsletter_body_email newsletter_body_email
        empty_store_distinct working_env_ok working_env_ok]
      example_address newsletter_body_email empty_store_distinct
    by (simp add: first_signup)
qed

text \<open>
  C9. A newsletter signup that passes validation and whose statement the engine does
  not fail is answered with success and hands exactly the welcome message for the
  submitted email to the transport, also when that email is already subscribed: then the
  insert is ignored, the subscriber rows are unchanged, and the welcome message is sent
  all the same.
\<close>

theorem newsletter_duplicate_welcome:
  assumes valid: "validationResult is_email newsletterValidation body = []"
    and ok: "\<not> db_fault e"
  shows "out_response (post_api_newsletter is_email cfg e db body) = NewsletterSubscribed
       \<and> out_mails (post_api_newsletter is_email cfg e db body) =
           [\<lparr>mail_from = env_or (SMTP_FROM cfg) ''hello@connectpair.co.uk'',
             mail_to = body ''email'', mail_template = WelcomeTemplate\<rparr>]
       \<and> (\<forall>address. body ''email'' = Str address
              \<and> address \<in> set (map sub_email (email_subscribers db))
            \<longrightarrow> email_subscribers (out_store (post_api_newsletter is_email cfg e db body))
                  = email_subscribers db)"
proof -
  let ?out = "post_api_newsletter is_email cfg e db body"
  let ?source = "with_default (body ''source'') (Str ''newsletter'')"
  from ok obtain db' where
    ins: "insert_or_ignore_subscriber e db (body ''email'') ?source = Inr db'"
    using insert_or_ignore_ok by blast
  note out = newsletter_outcome[OF valid ins]
  have "email_subscribers (out_store ?out) = email_subscribers db"
    if "body ''email'' = Str address" "address \<in> set (map sub_email (email_subscribers db))"
    for address
  proof -
    from ins that(1) have "insert_or_ignore_subscriber e db (Str address) ?source = Inr db'"
      by simp
    then have "email_subscribers db' = email_subscribers db"
      using that(2) by (rule insert_or_ignore_duplicate)
    with out(2) show ?thesis by simp
  qed
  with out(1,3) show ?thesis by blast
qed

theorem newsletter_duplicate_welcome_witness:
  "validationResult contains_at newsletterValidation newsletter_body = []
   \<and> \<not> db_fault working_env
   \<and> newsletter_body ''email'' = Str ''a@example.com''
   \<and> ''a@example.com'' \<in> set (map sub_email (email_subscribers subscribed_store))
   \<and> email_subscribers (out_store (post_api_newsletter contains_at example_config working_env
        subscribed_store newsletter_body)) = [example_subscriber]
   \<and> email_subscribers_seq (out_store (post_api_newsletter contains_at example_config
        working_env subscribed_store newsletter_body)) = 2
   \<and> out_mails (post_api_newsletter contains_at example_config working_env subscribed_store
        newsletter_body) = [welcome_mail]"
proof -
  have m: "''a@example.com'' \<in> set (map sub_email (email_subscribers subscribed_store))"
    by (simp add: subscribed_store_def example_subscriber_def)
  have w: "\<lparr>mail_from = env_or (SMTP_FROM example_config) ''hello@connectpair.co.uk'',
      mail_to = newsletter_body ''email'', mail_template = WelcomeTemplate\<rparr> = welcome_mail"
    by (simp add: welcome_mail_def env_or_def example_config_def newsletter_body_email)
  have rows: "email_subscribers subscribed_store = [example_subscriber]"
    by (simp add: subscribed_store_def)
  from newsletter_duplicate_welcome [OF newsletter_body_valid working_env_ok,
      of example_config subscribed_store]
    newsletter_body_valid m w rows working_env_ok newsletter_body_email
  show ?thesis by (simp add: second_signup)
qed

section \<open>Notification failures\<close>

lemma db_run_consultation_transport:
  "db_run_consultation (e\<lparr>smtp_ok := t\<rparr>) db body = db_run_consultation e db body"
  by (simp add: db_run_consultation_def insert_consultation_def Let_def split: option.splits)

lemma insert_or_ignore_transport:
  "insert_or_ignore_subscriber (e\<lparr>smtp_ok := t\<rparr>) db email source =
   insert_or_ignore_subscriber e db email source"
  by (simp add: insert_or_ignore_subscriber_def Let_def split: option.splits)

lemma consultation_transport:
  "out_response (post_api_consultation is_email cfg (e\<lparr>smtp_ok := t\<rparr>) db body)
     = out_response (post_api_consultation is_email cfg e db body)"
  "out_store (post_api_consultation is_email cfg (e\<lparr>smtp_ok := t\<rparr>) db body)
     = out_store (post_api_consultation is_email cfg e db body)"
  "out_mails (post_api_consultation is_email cfg (e\<lparr>smtp_ok := t\<rparr>) db body)
     = out_mails (post_api_consultation is_email cfg e db body)"
  by (simp_all add: post_api_consultation_def db_run_consultation_transport Let_def
      sendConsultationConfirmation_def sendAdminNotification_def split: sum.splits prod.splits)

lemma newsletter_transport:
  "out_response (post_api_newsletter is_email cfg (e\<lparr>smtp_ok := t\<rparr>) db body)
     = out_response (post_api_newsletter is_email cfg e db body)"
  "out_store (post_api_newsletter is_email cfg (e\<lparr>smtp_ok := t\<rparr>) db body)
     = out_store (post_api_newsletter is_email cfg e db body)"
  "out_mails (post_api_newsletter is_email cfg (e\<lparr>smtp_ok := t\<rparr>) db body)
     = out_mails (post_api_newsletter is_email cfg e db body)"
  by (simp_all add: post_api_newsletter_def insert_or_ignore_transport Let_def
      sendWelcomeEmail_def split: sum.splits)

lemma consultation_failures_logged:
  assumes "m \<in> set (out_mails (post_api_consultation is_email cfg e db body))"
    and "\<not> smtp_ok e m"
  shows "ConsoleError (failure_line (mail_template m))
           \<in> set (out_log (post_api_consultation is_email cfg e db body))"
  using assms
  by (auto simp: post_api_consultation_def Let_def sendConsultationConfirmation_def
      sendAdminNotification_def split: if_splits sum.splits prod.splits)

lemma newsletter_failures_logged:
  assumes "m \<in> set (out_mails (post_api_newsletter is_email cfg e db body))"
    and "\<not> smtp_ok e m"
  shows "ConsoleError (failure_line (mail_template m))
           \<in> set (out_log (post_api_newsletter is_email cfg e db body))"
  using assms
  by (auto simp: post_api_newsletter_def Let_def sendWelcomeEmail_def
      split: if_splits sum.splits)

text \<open>
  C5. What the mail transport does with a message never reaches the caller: with any
  other transport behaviour the consultation and the newsletter handler give the same
  response and leave the same store, so a request whose row was persisted is answered
  with success whether its notifications are delivered or not. A message the transport
  rejects (customer confirmation, admin alert or welcome message) leaves its error line
  on the console.
\<close>

theorem notification_failure_only_logged:
  "out_response (post_api_consultation is_email cfg (e\<lparr>smtp_ok := t\<rparr>) db body)
     = out_response (post_api_consultation is_email cfg e db body)
   \<and> out_store (post_api_consultation is_email cfg (e\<lparr>smtp_ok := t\<rparr>) db body)
     = out_store (post_api_consultation is_email cfg e db body)
   \<and> out_response (post_api_newsletter is_email cfg (e\<lparr>smtp_ok := t\<rparr>) db body)
     = out_response (post_api_newsletter is_email cfg e db body)
   \<and> out_store (post_api_newsletter is_email cfg (e\<lparr>smtp_ok := t\<rparr>) db body)
     = out_store (post_api_newsletter is_email cfg e db body)
   \<and> (\<forall>m \<in> set (out_mails (post_api_consultation is_email cfg e db body)).
         \<not> smtp_ok e m \<longrightarrow>
         ConsoleError (failure_line (mail_template m))
           \<in> set (out_log (post_api_consultation is_email cfg e db body)))
   \<and> (\<forall>m \<in> set (out_mails (post_api_newsletter is_email cfg e db body)).
         \<not> smtp_ok e m \<longrightarrow>
         ConsoleError (failure_line (mail_template m))
           \<in> set (out_log (post_api_newsletter is_email cfg e db body)))"
  by (intro conjI ballI impI consultation_transport newsletter_transport
      consultation_failures_logged newsletter_failures_logged)

theorem notification_failure_only_logged_witness:
  "out_response (post_api_consultation contains_at example_config
      (working_env\<lparr>smtp_ok := dead_transport\<rparr>) empty_store example_body)
     = ConsultationSubmitted 1
   \<and> out_store (post_api_consultation contains_at example_config
      (working_env\<lparr>smtp_ok := dead_transport\<rparr>) empty_store example_body)
     = empty_store\<lparr>consultations := [example_row], consultations_seq := 1\<rparr>
   \<and> \<not> dead_transport confirmation_mail
   \<and> ConsoleError ''Error sending confirmation email:''
       \<in> set (out_log (post_api_consultation contains_at example_config
            (working_env\<lparr>smtp_ok := dead_transport\<rparr>) empty_store example_body))"
proof -
  let ?dead = "working_env\<lparr>smtp_ok := dead_transport\<rparr>"
  let ?out = "post_api_consultation contains_at example_config ?dead empty_store example_body"
  note same = notification_failure_only_logged [where is_email = contains_at
      and cfg = example_config and e = working_env and t = dead_transport
      and db = empty_store and body = example_body]
  note logged = notification_failure_only_logged [where is_email = contains_at
      and cfg = example_config and e = ?dead and t = dead_transport
      and db = empty_store and body = example_body]
  have upd: "?dead\<lparr>smtp_ok := dead_transport\<rparr> = ?dead" by simp
  from same have r: "out_response ?out = ConsultationSubmitted 1"
    and st: "out_store ?out = empty_store\<lparr>consultations := [example_row], consultations_seq := 1\<rparr>"
    by (simp_all add: example_outcome)
  have mails: "out_mails ?out = out_mails (post_api_consultation contains_at example_config
      working_env empty_store example_body)"
    by (rule consultation_transport(3))
  then have mem: "confirmation_mail \<in> set (out_mails ?out)"
    by (simp add: example_outcome confirmation_mail_def)
  have dead: "\<not> smtp_ok ?dead confirmation_mail" by (simp add: dead_transport_def)
  from logged have "\<forall>m \<in> set (out_mails ?out). \<not> smtp_ok ?dead m \<longrightarrow>
      ConsoleError (failure_line (mail_template m)) \<in> set (out_log ?out)"
    by blast
  with mem dead have "ConsoleError (failure_line (mail_template confirmation_mail))
      \<in> set (out_log ?out)"
    by blast
  then have "ConsoleError ''Error sending confirmation email:'' \<in> set (out_log ?out)"
    by (simp add: confirmation_mail_def)
  with r st show ?thesis by (simp add: dead_transport_def)
qed

section \<open>Admin consultation listing\<close>

lemma parseInt_1: "parseInt ''1'' = Some 1"
  by (simp add: parseInt_def is_white_space_def digit_value_def round_to_double_def)

lemma parseInt_0: "parseInt ''0'' = Some 0"
  by (simp add: parseInt_def is_white_space_def digit_value_def round_to_double_def)

lemma parseInt_10: "parseInt ''10'' = Some 10"
  by (simp add: parseInt_def is_white_space_def digit_value_def round_to_double_def)

lemma sql_eq_Some: "sql_eq x (Some y) \<longleftrightarrow> x = Some y"
  by (cases x) simp_all

lemma sorted_first_min:
  assumes "sorted (map f (z # zs))" and "y \<in> set (z # zs)"
  shows "f z \<le> f y"
  using assms by auto

lemma newest_first:
  assumes "rows \<noteq> []"
  shows "\<exists>r. take 1 (order_by_created_at_desc rows) = [r] \<and> r \<in> set rows
           \<and> (\<forall>r' \<in> set rows. con_created_at r' \<le> con_created_at r)"
proof -
  let ?key = "\<lambda>r. - int (con_created_at r)"
  let ?ys = "sort_key ?key rows"
  from assms have "?ys \<noteq> []"
    by (metis length_0_conv length_sort)
  then obtain z zs where ys: "?ys = z # zs"
    by (cases ?ys) auto
  have t: "take 1 (order_by_created_at_desc rows) = [z]"
    unfolding order_by_created_at_desc_def ys by simp
  have "z \<in> set ?ys" unfolding ys by simp
  then have m: "z \<in> set rows" by simp
  have srt: "sorted (map ?key (z # zs))"
    using sorted_sort_key[of ?key rows] unfolding ys .
  have "con_created_at r' \<le> con_created_at z" if "r' \<in> set rows" for r'
  proof -
    from that have "r' \<in> set ?ys" by simp
    then have "r' \<in> set (z # zs)" unfolding ys .
    with srt have "?key z \<le> ?key r'" by (rule sorted_first_min)
    then show ?thesis by simp
  qed
  with t m show ?thesis by blast
qed

text \<open>
  C6. On a store with more than one consultation, the admin listing called with
  \<open>limit=1\<close>, \<open>offset=0\<close> and no status filter, the engine not failing, returns
  exactly one row; it is a row of the store and no consultation has a later creation
  time, the rows being ordered by creation time descending. So it is the most recently
  created consultation whenever that one's creation time, which is kept to the second,
  is later than every other's.
\<close>

theorem admin_first_page_newest:
  assumes limit: "query ''limit'' = Str ''1''"
    and offset: "query ''offset'' = Str ''0''"
    and nofilter: "\<not> truthy (query ''status'')"
    and ok: "\<not> db_fault e"
    and many: "1 < length (consultations db)"
  shows "\<exists>r. out_response (get_api_admin_consultations e db query) = ConsultationsFound [r]
           \<and> r \<in> set (consultations db)
           \<and> (\<forall>r' \<in> set (consultations db). con_created_at r' \<le> con_created_at r)
           \<and> (\<forall>m \<in> set (consultations db).
                 (\<forall>r' \<in> set (consultations db). r' \<noteq> m \<longrightarrow>
                     con_created_at r' < con_created_at m)
                 \<longrightarrow> r = m)"
proof -
  from many have "consultations db \<noteq> []" by auto
  then obtain r where r: "take 1 (order_by_created_at_desc (consultations db)) = [r]"
    "r \<in> set (consultations db)"
    "\<forall>r' \<in> set (consultations db). con_created_at r' \<le> con_created_at r"
    using newest_first by blast
  have w: "filter (consultations_where (query ''status'')) (consultations db) = consultations db"
    using nofilter by (simp add: consultations_where_def)
  have "select_consultations e db (consultations_where (query ''status'')) (Some 1) (Some 0)
      = Inr [r]"
    using ok r(1) by (simp add: select_consultations_def sql_integer_def sql_limit_def
        sql_offset_def w)
  then have resp: "out_response (get_api_admin_consultations e db query) = ConsultationsFound [r]"
    by (simp add: get_api_admin_consultations_def limit offset with_default_def
        parseInt_1 parseInt_0)
  have latest: "r = m"
    if m: "m \<in> set (consultations db)"
      and later: "\<forall>r' \<in> set (consultations db). r' \<noteq> m \<longrightarrow>
                    con_created_at r' < con_created_at m"
    for m
  proof (rule ccontr)
    assume "r \<noteq> m"
    with later r(2) have "con_created_at r < con_created_at m" by blast
    moreover from r(3) m have "con_created_at m \<le> con_created_at r" by blast
    ultimately show False by simp
  qed
  from resp r(2,3) latest show ?thesis by blast
qed

theorem admin_first_page_newest_witness:
  "first_page_query ''limit'' = Str ''1''
   \<and> first_page_query ''offset'' = Str ''0''
   \<and> \<not> truthy (first_page_query ''status'')
   \<and> \<not> db_fault working_env
   \<and> consultations two_consultations = [example_row, newer_row]
   \<and> con_created_at example_row < con_created_at newer_row
   \<and> out_response (get_api_admin_consultations working_env two_consultations first_page_query)
       = ConsultationsFound [newer_row]"
proof -
  have q: "first_page_query ''limit'' = Str ''1''" "first_page_query ''offset'' = Str ''0''"
    "\<not> truthy (first_page_query ''status'')"
    by (simp_all add: first_page_query_def)
  have ok: "\<not> db_fault working_env" by (simp add: working_env_def)
  have rows: "consultations two_consultations = [example_row, newer_row]"
    by (simp add: two_consultations_def)
  then have many: "1 < length (consultations two_consultations)" by simp
  have later: "con_created_at example_row < con_created_at newer_row"
    by (simp add: example_row_def newer_row_def)
  from admin_first_page_newest [OF q ok many] obtain r where
    resp: "out_response (get_api_admin_consultations working_env two_consultations
             first_page_query) = ConsultationsFound [r]"
    and latest: "\<forall>m \<in> set (consultations two_consultations).
                   (\<forall>r' \<in> set (consultations two_consultations). r' \<noteq> m \<longrightarrow>
                       con_created_at r' < con_created_at m)
                   \<longrightarrow> r = m"
    by blast
  from latest rows later have "r = newer_row" by simp
  with resp q ok rows later show ?thesis by simp
qed

lemma second_submission:
  "out_store (post_api_consultation contains_at example_config working_env
     (out_store (post_api_consultation contains_at example_config working_env empty_store
        example_body)) second_body) = same_second_store"
proof -
  let ?db1 = "empty_store\<lparr>consultations := [example_row], consultations_seq := 1\<rparr>"
  have v: "validationResult contains_at consultationValidation second_body = []"
    by (simp add: validation_passed second_body_def contains_at_def)
  have i: "db_run_consultation working_env ?db1 second_body = Inr (same_second_store, 2)"
    by (simp add: db_run_consultation_def insert_consultation_def second_body_def
        working_env_def empty_store_def same_second_store_def same_second_row_def
        example_row_def js_or_def next_rowid_def)
  have "out_store (post_api_consultation contains_at example_config working_env ?db1
      second_body) = same_second_store"
    using consultation_stored[OF v i] .
  then show ?thesis by (simp add: example_outcome)
qed

text \<open>
  Two submissions that arrive within one second carry the same creation time, and the
  listing then returns the first of them, not the one created last.
\<close>

theorem admin_first_page_tie:
  "out_store (post_api_consultation contains_at example_config working_env
     (out_store (post_api_consultation contains_at example_config working_env empty_store
        example_body)) second_body) = same_second_store
   \<and> consultations same_second_store = [example_row, same_second_row]
   \<and> con_id example_row = 1 \<and> con_id same_second_row = 2
   \<and> out_response (get_api_admin_consultations working_env same_second_store first_page_query)
       = ConsultationsFound [example_row]
   \<and> example_row \<noteq> same_second_row"
proof -
  have rows: "consultations same_second_store = [example_row, same_second_row]"
    by (simp add: same_second_store_def)
  have ids: "con_id example_row = 1" "con_id same_second_row = 2"
    by (simp_all add: example_row_def same_second_row_def)
  then have ne: "example_row \<noteq> same_second_row" by auto
  have srt: "order_by_created_at_desc [example_row, same_second_row]
      = [example_row, same_second_row]"
    by (simp add: order_by_created_at_desc_def example_row_def same_second_row_def)
  have w: "filter (consultations_where (first_page_query ''status''))
      (consultations same_second_store) = [example_row, same_second_row]"
    by (simp add: consultations_where_def first_page_query_def rows)
  have "select_consultations working_env same_second_store
      (consultations_where (first_page_query ''status'')) (Some 1) (Some 0) = Inr [example_row]"
    by (simp add: select_consultations_def sql_integer_def sql_limit_def sql_offset_def
        w srt working_env_def)
  then have "out_response (get_api_admin_consultations working_env same_second_store
      first_page_query) = ConsultationsFound [example_row]"
    by (simp add: get_api_admin_consultations_def first_page_query_def with_default_def
        parseInt_1 parseInt_0)
  with second_submission rows ids ne show ?thesis by simp
qed

section \<open>Number search\<close>

lemma sql_limit_subset: "set (sql_limit n rows) \<subseteq> set rows"
  by (auto simp: sql_limit_def dest: in_set_takeD)

lemma numbers_found_cases:
  assumes "out_response (get_api_numbers_search e db query) = NumbersFound rows"
  shows "\<exists>n. rows = sql_limit n (filter (numbers_where (query ''pattern'') (query ''area_code''))
                        (phone_numbers db))"
  using assms
  by (auto simp: get_api_numbers_search_def select_phone_numbers_def Let_def
      split: if_splits sum.splits option.splits)

lemma sel_default:
  "select_phone_numbers e db wh (Some 10) =
     (if db_fault e then Inl SQLITE_ERROR else Inr (take 10 (filter wh (phone_numbers db))))"
  by (simp add: select_phone_numbers_def sql_integer_def sql_limit_def)

lemma where_default:
  assumes "\<not> truthy pattern" and "\<not> truthy area_code"
  shows "numbers_where pattern area_code = (\<lambda>r. pn_status r = Some ''available'')"
  using assms by (intro ext) (simp add: numbers_where_def sql_eq_Some)

lemma search_default_response:
  assumes "\<not> truthy (query ''pattern'')" and "\<not> truthy (query ''area_code'')"
    and "query ''limit'' = Undefined"
  shows "out_response (get_api_numbers_search e db query) =
     (if db_fault e then Json500 ''Database error''
      else NumbersFound (take 10 (filter (\<lambda>r. pn_status r = Some ''available'')
                                   (phone_numbers db))))"
  by (simp add: get_api_numbers_search_def assms(3) with_default_def parseInt_10
      where_default[OF assms(1,2)] sel_default)

text \<open>
  C7. The number search called with no pattern, no area code and no limit returns, when
  the engine does not fail, the first ten rows of status \<open>available\<close> in table order;
  whatever rows it returns are at most ten, are rows of the store, and all have status
  \<open>available\<close>.
\<close>

theorem search_default_limit:
  assumes nopattern: "\<not> truthy (query ''pattern'')"
    and noarea: "\<not> truthy (query ''area_code'')"
    and nolimit: "query ''limit'' = Undefined"
  shows "(\<not> db_fault e \<longrightarrow>
            out_response (get_api_numbers_search e db query) =
              NumbersFound (take 10 (filter (\<lambda>r. pn_status r = Some ''available'')
                                      (phone_numbers db))))
       \<and> (\<forall>rows. out_response (get_api_numbers_search e db query) = NumbersFound rows \<longrightarrow>
            length rows \<le> 10
            \<and> (\<forall>r \<in> set rows. pn_status r = Some ''available'' \<and> r \<in> set (phone_numbers db)))"
proof (intro conjI allI impI)
  let ?avail = "filter (\<lambda>r. pn_status r = Some ''available'') (phone_numbers db)"
  note resp = search_default_response [OF assms, of e db]
  {
    assume "\<not> db_fault e"
    with resp show "out_response (get_api_numbers_search e db query) = NumbersFound (take 10 ?avail)"
      by simp
  }
  fix rows
  assume found: "out_response (get_api_numbers_search e db query) = NumbersFound rows"
  have rows: "rows = take 10 ?avail"
  proof (cases "db_fault e")
    case True
    with resp found show ?thesis by simp
  next
    case False
    with resp found show ?thesis by simp
  qed
  show "length rows \<le> 10" unfolding rows by simp
  have sub: "set rows \<subseteq> set ?avail" unfolding rows by (rule set_take_subset)
  show "\<forall>r \<in> set rows. pn_status r = Some ''available'' \<and> r \<in> set (phone_numbers db)"
    using sub by auto
qed


lemma numbered_available: "pn_status (numbered i) = Some ''available''"
  by (simp add: numbered_def example_number_def)

theorem search_default_limit_witness:
  "\<not> truthy (no_query ''pattern'') \<and> \<not> truthy (no_query ''area_code'')
   \<and> no_query ''limit'' = Undefined
   \<and> \<not> db_fault working_env
   \<and> length (phone_numbers large_number_store) = 13
   \<and> out_response (get_api_numbers_search working_env large_number_store no_query)
       = NumbersFound (map numbered [0..<10])"
proof -
  have q: "\<not> truthy (no_query ''pattern'')" "\<not> truthy (no_query ''area_code'')"
    "no_query ''limit'' = Undefined"
    by (simp_all add: no_query_def)
  have ok: "\<not> db_fault working_env" by (simp add: working_env_def)
  have f: "filter (\<lambda>r. pn_status r = Some ''available'') (phone_numbers large_number_store)
      = map numbered [0..<12]"
    by (simp add: large_number_store_def sold_number_def filter_map comp_def numbered_available)
  have "take 10 (map numbered [0..<12]) = map numbered [0..<10]"
    by (simp add: take_map)
  with search_default_limit [OF q, of working_env large_number_store] ok f
  have "out_response (get_api_numbers_search working_env large_number_store no_query)
      = NumbersFound (map numbered [0..<10])"
    by simp
  with q ok show ?thesis by (simp add: large_number_store_def)
qed

text \<open>
  The area-code filter is the pattern of a \<open>LIKE\<close>. When the area code consists of
  decimal digits the pattern matches exactly the numbers that start with it.
\<close>

lemma like_match_percent: "like_match ''%'' s"
  by (induction s) simp_all

lemma digit_not_wildcard:
  assumes "is_digit c"
  shows "c \<noteq> CHR ''%''" and "c \<noteq> CHR ''_''"
  using assms by (auto simp: is_digit_def)

lemma ascii_lower_digit:
  assumes "is_digit c"
  shows "ascii_lower c = ascii_lower d \<longleftrightarrow> c = d"
proof -
  let ?n = "of_char d :: nat"
  from assms have c: "ascii_lower c = c"
    by (simp add: ascii_lower_def is_digit_def Let_def)
  show ?thesis
  proof (cases "65 \<le> ?n \<and> ?n \<le> 90")
    case True
    then have d: "ascii_lower d = char_of (?n + 32)"
      by (simp add: ascii_lower_def Let_def)
    from True have "(of_char (char_of (?n + 32) :: char) :: nat) = ?n + 32"
      by simp
    with assms True have "c \<noteq> char_of (?n + 32)" "c \<noteq> d"
      by (auto simp: is_digit_def)
    with c d show ?thesis by simp
  next
    case False
    then have "ascii_lower d = d" by (auto simp: ascii_lower_def Let_def)
    with c show ?thesis by simp
  qed
qed

lemma like_digits_prefix:
  assumes "\<forall>c \<in> set p. is_digit c"
  shows "like_match (p @ ''%'') s \<longleftrightarrow> take (length p) s = p"
  using assms
proof (induction p arbitrary: s)
  case Nil
  then show ?case by (simp add: like_match_percent)
next
  case (Cons c p)
  then have c: "is_digit c" and p: "\<forall>c \<in> set p. is_digit c" by simp_all
  show ?case
  proof (cases s)
    case Nil
    with digit_not_wildcard[OF c] show ?thesis by simp
  next
    case (Cons d s')
    with digit_not_wildcard[OF c] ascii_lower_digit[OF c, of d] Cons.IH[OF p, of s']
    show ?thesis by auto
  qed
qed

lemma search_area_code_digits:
  assumes area: "query ''area_code'' = Str p"
    and digits: "\<forall>c \<in> set p. is_digit c"
    and found: "out_response (get_api_numbers_search e db query) = NumbersFound rows"
    and r: "r \<in> set rows"
  shows "take (length p) (pn_number r) = p"
proof (cases "p = []")
  case True
  then show ?thesis by simp
next
  case False
  from found obtain n where
    "rows = sql_limit n (filter (numbers_where (query ''pattern'') (query ''area_code''))
              (phone_numbers db))"
    by (blast dest: numbers_found_cases)
  with r sql_limit_subset have "numbers_where (query ''pattern'') (Str p) r"
    unfolding area by fastforce
  with False have "like_match (p @ ''%'') (pn_number r)"
    by (simp add: numbers_where_def)
  with digits show ?thesis by (simp add: like_digits_prefix)
qed

text \<open>
  C8. The area-code filter is not a prefix test for every filter string: \<open>LIKE\<close> reads
  \<open>_\<close> and \<open>%\<close> in it as wildcards. The search with area code \<open>_\<close> returns the
  available number \<open>07700900123\<close>, which does not start with \<open>_\<close>.
\<close>

theorem search_area_code_wildcard:
  "wildcard_query ''area_code'' = Str ''_''
   \<and> out_response (get_api_numbers_search working_env number_store wildcard_query)
       = NumbersFound [example_number]
   \<and> pn_number example_number = ''07700900123''
   \<and> take (length ''_'') (pn_number example_number) \<noteq> ''_''"
  by (simp add: wildcard_query_def get_api_numbers_search_def select_phone_numbers_def
      number_store_def empty_store_def working_env_def with_default_def parseInt_10
      sql_integer_def sql_limit_def numbers_where_def example_number_def sold_number_def
      ascii_lower_def)

end
